theory Spec2Isabelle
  imports Main "HOL-Library.Word"
begin

section \<open>The sentences table\<close>

text \<open>
  The application keeps one SQLite table, created by \<^verbatim>\<open>_init_database\<close>:
  \<^verbatim>\<open>
  CREATE TABLE IF NOT EXISTS sentences (
      id INTEGER PRIMARY KEY, original TEXT NOT NULL, rewrite TEXT,
      seen BOOLEAN DEFAULT 0, created_at TIMESTAMP DEFAULT CURRENT_TIMESTAMP,
      updated_at TIMESTAMP)
  \<close>
  A row is a record, the table a list of rows in rowid order. A nullable column is an
  option. \<^verbatim>\<open>CURRENT_TIMESTAMP\<close> is read from the environment: each operation that
  uses it takes the text SQLite would produce as an argument. The column \<^verbatim>\<open>id\<close> is
  the field \<open>sid\<close>, since \<open>id\<close> is the identity function of HOL.
\<close>

type_synonym timestamp = string

record sentence =
  sid :: int
  original :: string
  rewrite :: "string option"
  seen :: bool
  created_at :: timestamp
  updated_at :: "timestamp option"

type_synonym store = "sentence list"

section \<open>Python strings and pandas cells\<close>

text \<open>
  A \<open>char\<close> stands for a code point below 256. \<^verbatim>\<open>str.strip()\<close> removes leading and
  trailing whitespace; below 256 the whitespace code points of Python are 9 to 13, 28 to 32,
  133 and 160.
\<close>

definition isspace :: "char \<Rightarrow> bool" where
  "isspace c =
     (let n = (of_char c :: nat)
      in (9 \<le> n \<and> n \<le> 13) \<or> (28 \<le> n \<and> n \<le> 32) \<or> n = 133 \<or> n = 160)"

definition strip :: "string \<Rightarrow> string" where
  "strip s = rev (dropWhile isspace (rev (dropWhile isspace s)))"

text \<open>
  \<^verbatim>\<open>pd.read_csv\<close> delivers a frame: the column labels of the header and the rows below
  it. With its default settings a field that is empty (or one of the default missing-value
  markers) arrives as the float NaN, every other text field as a \<^verbatim>\<open>str\<close>; a row with fewer
  fields than the header is filled up with NaN. \<^verbatim>\<open>str(float('nan'))\<close> is \<^verbatim>\<open>'nan'\<close>.
  Columns that pandas parses as numbers are outside this model.
\<close>

datatype cell = Str string | NaN

fun py_str :: "cell \<Rightarrow> string" where
  "py_str (Str s) = s"
| "py_str NaN = ''nan''"

record dataframe =
  columns :: "string list"
  rows :: "cell list list"

definition row_get :: "string list \<Rightarrow> cell list \<Rightarrow> string \<Rightarrow> cell" where
  "row_get cols row name = (case map_of (zip cols row) name of Some c \<Rightarrow> c | None \<Rightarrow> NaN)"

section \<open>Exceptions\<close>

text \<open>
  \<open>ValueError\<close> is raised by \<^verbatim>\<open>import_csv\<close> itself, \<open>DatabaseError\<close> stands for
  an exception of the \<^verbatim>\<open>sqlite3\<close> module (a locked database, a full disk), \<open>ReadError\<close>
  for one of \<^verbatim>\<open>pd.read_csv\<close> (no such file, no columns to parse), and \<open>Exception\<close> is
  what the \<^verbatim>\<open>except\<close> clause of \<^verbatim>\<open>import_csv\<close> raises in their place.
\<close>

datatype exn = ValueError string | DatabaseError string | ReadError string | Exception string

fun exn_str :: "exn \<Rightarrow> string" where
  "exn_str (ValueError m) = m"
| "exn_str (DatabaseError m) = m"
| "exn_str (ReadError m) = m"
| "exn_str (Exception m) = m"

section \<open>WritingAppModel\<close>

subsection \<open>import_csv\<close>

text \<open>
  \<^verbatim>\<open>INSERT INTO sentences (original) VALUES (?)\<close>: SQLite gives the new row the largest
  rowid of the table plus one (1 in an empty table) and the defaults of the other columns.
  (Only at the largest rowid, \<open>2\<^sup>6\<^sup>3 - 1\<close>, would SQLite look for an unused id instead;
  ids are unbounded integers here.)
\<close>

fun max_id :: "store \<Rightarrow> int" where
  "max_id [] = 0"
| "max_id (r # rs) = max (sid r) (max_id rs)"

definition insert_sentence :: "timestamp \<Rightarrow> string \<Rightarrow> store \<Rightarrow> store" where
  "insert_sentence now s db =
     db @ [\<lparr>sid = max_id db + 1, original = s, rewrite = None, seen = False,
            created_at = now, updated_at = None\<rparr>]"

text \<open>
  The loop over \<^verbatim>\<open>df.iterrows()\<close>. \<open>i\<close> is the index of the row being processed,
  \<open>db\<close> the table as the open transaction sees it and \<open>n\<close> is \<^verbatim>\<open>imported_count\<close>.
  The environment decides two things: \<open>fault i\<close> is \<open>Some msg\<close> when a statement executed
  for row \<open>i\<close> raises a \<^verbatim>\<open>sqlite3\<close> exception with that message, and \<open>clock i\<close> is
  \<^verbatim>\<open>CURRENT_TIMESTAMP\<close> while row \<open>i\<close> is processed. A blank row executes no
  statement, so no fault can strike there. \<^verbatim>\<open>cursor.fetchone() is None\<close> is
  \<open>find \<dots> = None\<close>.
\<close>

fun import_rows ::
  "(nat \<Rightarrow> string option) \<Rightarrow> (nat \<Rightarrow> timestamp) \<Rightarrow> string list \<Rightarrow> nat \<Rightarrow>
   cell list list \<Rightarrow> store \<Rightarrow> nat \<Rightarrow> exn + (store \<times> nat)" where
  "import_rows fault clock cols i [] db n = Inr (db, n)"
| "import_rows fault clock cols i (row # rest) db n =
     (let sentence = strip (py_str (row_get cols row ''sentence''))
      in if sentence = [] then import_rows fault clock cols (Suc i) rest db n
         else case fault i of
             Some msg \<Rightarrow> Inl (DatabaseError msg)
           | None \<Rightarrow>
               if find (\<lambda>r. original r = sentence) db = None
               then import_rows fault clock cols (Suc i) rest
                      (insert_sentence (clock i) sentence db) (n + 1)
               else import_rows fault clock cols (Suc i) rest db n)"

text \<open>The body of the \<^verbatim>\<open>try\<close> block; \<open>parsed\<close> is what \<^verbatim>\<open>pd.read_csv\<close> did.\<close>

definition import_body ::
  "(nat \<Rightarrow> string option) \<Rightarrow> (nat \<Rightarrow> timestamp) \<Rightarrow> exn + dataframe \<Rightarrow> store \<Rightarrow>
   exn + (store \<times> nat)" where
  "import_body fault clock parsed db =
     (case parsed of
        Inl e \<Rightarrow> Inl e
      | Inr df \<Rightarrow>
          if ''sentence'' \<notin> set (columns df)
          then Inl (ValueError ''CSV must contain a 'sentence' column'')
          else import_rows fault clock (columns df) 0 (rows df) db 0)"

text \<open>
  \<^verbatim>\<open>import_csv\<close> returns the outcome of the call and the committed table after it.
  The only \<^verbatim>\<open>conn.commit()\<close> stands after the loop, and the loop runs inside
  \<^verbatim>\<open>with sqlite3.connect(self.db_path) as conn\<close>, which rolls the open transaction back
  when an exception leaves the block: on an exception the committed table is the one
  before the call.
\<close>

definition import_csv ::
  "(nat \<Rightarrow> string option) \<Rightarrow> (nat \<Rightarrow> timestamp) \<Rightarrow> exn + dataframe \<Rightarrow> store \<Rightarrow>
   (exn + nat) \<times> store" where
  "import_csv fault clock parsed db =
     (case import_body fault clock parsed db of
        Inl e \<Rightarrow> (Inl (Exception (''Failed to import CSV: '' @ exn_str e)), db)
      | Inr (db', n) \<Rightarrow> (Inr n, db'))"

subsection \<open>get_random_unseen_sentence\<close>

text \<open>
  \<^verbatim>\<open>SELECT id, original FROM sentences WHERE seen = 0 ORDER BY RANDOM() LIMIT 1\<close>:
  every row that passes the filter gets a fresh value of \<^verbatim>\<open>RANDOM()\<close>, a signed 64-bit
  integer, the rows are sorted by it and the first one is fetched. \<open>rnd k\<close> is the value
  drawn for the \<open>k\<close>-th unseen row.
\<close>

definition get_random_unseen_sentence ::
  "(nat \<Rightarrow> 64 word) \<Rightarrow> store \<Rightarrow> (int \<times> string) option" where
  "get_random_unseen_sentence rnd db =
     (let unseen = filter (\<lambda>r. \<not> seen r) db;
          ordered = sort_key (\<lambda>kr. sint (fst kr)) (zip (map rnd [0..<length unseen]) unseen)
      in case take 1 ordered of
           [] \<Rightarrow> None
         | kr # _ \<Rightarrow> Some (sid (snd kr), original (snd kr)))"

subsection \<open>mark_sentence_seen, save_rewrite, get_progress_stats, reset_session\<close>

definition mark_sentence_seen :: "timestamp \<Rightarrow> int \<Rightarrow> store \<Rightarrow> store" where
  "mark_sentence_seen now sentence_id db =
     map (\<lambda>r. if sid r = sentence_id then r\<lparr>seen := True, updated_at := Some now\<rparr> else r) db"

definition save_rewrite :: "timestamp \<Rightarrow> int \<Rightarrow> string \<Rightarrow> store \<Rightarrow> store" where
  "save_rewrite now sentence_id text db =
     map (\<lambda>r. if sid r = sentence_id then r\<lparr>rewrite := Some text, updated_at := Some now\<rparr>
              else r) db"

text \<open>\<^verbatim>\<open>return total, completed\<close>\<close>

definition get_progress_stats :: "store \<Rightarrow> nat \<times> nat" where
  "get_progress_stats db = (length db, length (filter (\<lambda>r. rewrite r \<noteq> None) db))"

definition reset_session :: "store \<Rightarrow> store" where
  "reset_session db = map (\<lambda>r. r\<lparr>seen := False, rewrite := None, updated_at := None\<rparr>) db"

section \<open>WritingAppView\<close>

text \<open>
  Of the window the model keeps what the controller reads and writes: the text shown as
  the original sentence, the raw content of the rewrite box (what
  \<^verbatim>\<open>self.rewrite_text.get(1.0, tk.END)\<close> returns), the two numbers last given to
  \<^verbatim>\<open>update_progress\<close>, and the message boxes shown so far.
\<close>

datatype dialog = InfoDialog string string | ErrorDialog string string

record view =
  sentence_text :: string
  rewrite_text :: string
  progress :: "nat \<times> nat"
  dialogs :: "dialog list"

definition set_sentence_text :: "string \<Rightarrow> view \<Rightarrow> view" where
  "set_sentence_text t v = v\<lparr>sentence_text := t\<rparr>"

definition get_rewrite_text :: "view \<Rightarrow> string" where
  "get_rewrite_text v = strip (rewrite_text v)"

definition clear_rewrite_text :: "view \<Rightarrow> view" where
  "clear_rewrite_text v = v\<lparr>rewrite_text := []\<rparr>"

definition update_progress :: "nat \<Rightarrow> nat \<Rightarrow> view \<Rightarrow> view" where
  "update_progress completed total' v = v\<lparr>progress := (completed, total')\<rparr>"

definition show_error :: "string \<Rightarrow> string \<Rightarrow> view \<Rightarrow> view" where
  "show_error title message v = v\<lparr>dialogs := dialogs v @ [ErrorDialog title message]\<rparr>"

section \<open>WritingAppController\<close>

record controller =
  model :: store
  window :: view
  current_sentence_id :: "int option"
  current_sentence_text :: "string option"

text \<open>
  Every method of the model opens its own connection, executes its statement and commits;
  when \<^verbatim>\<open>sqlite3\<close> raises there, nothing of that call is written. For a handler,
  \<open>fault k\<close> is \<open>Some msg\<close> when the \<open>k\<close>-th call of the model that the handler makes
  (counted from 0) raises with that message. A handler returns the exception that leaves
  it, if any, and the controller after it.

  \<^verbatim>\<open>_load_next_sentence\<close> calls \<^verbatim>\<open>get_random_unseen_sentence\<close> (call 0), stores the
  sentence, then calls \<^verbatim>\<open>get_progress_stats\<close> (call 1) and shows the progress.
\<close>

definition load_next_sentence ::
  "(nat \<Rightarrow> 64 word) \<Rightarrow> (nat \<Rightarrow> string option) \<Rightarrow> controller \<Rightarrow>
   exn option \<times> controller" where
  "load_next_sentence rnd fault c =
     (case fault 0 of
        Some msg \<Rightarrow> (Some (DatabaseError msg), c)
      | None \<Rightarrow>
          let c' = (case get_random_unseen_sentence rnd (model c) of
                      Some (i, t) \<Rightarrow>
                        c\<lparr>current_sentence_id := Some i, current_sentence_text := Some t,
                          window := set_sentence_text t (window c)\<rparr>
                    | None \<Rightarrow>
                        c\<lparr>current_sentence_id := None, current_sentence_text := None,
                          window := set_sentence_text
                            ''No more sentences to practice! Import more or reset the session.''
                            (window c)\<rparr>)
          in case fault 1 of
               Some msg \<Rightarrow> (Some (DatabaseError msg), c')
             | None \<Rightarrow>
                 let (total', completed) = get_progress_stats (model c')
                 in (None, c'\<lparr>window := update_progress completed total' (window c')\<rparr>))"

text \<open>
  The \<^verbatim>\<open>try\<close> block of \<^verbatim>\<open>_handle_save\<close>: \<^verbatim>\<open>save_rewrite\<close> (call 0), then
  \<^verbatim>\<open>mark_sentence_seen\<close> (call 1), then the rewrite box is cleared and the next sentence
  loaded (calls 2 and 3). The two updates read \<^verbatim>\<open>CURRENT_TIMESTAMP\<close> one after the
  other: \<open>now1\<close>, then \<open>now2\<close>.
\<close>

definition save_try ::
  "timestamp \<Rightarrow> timestamp \<Rightarrow> (nat \<Rightarrow> 64 word) \<Rightarrow> (nat \<Rightarrow> string option) \<Rightarrow> int \<Rightarrow>
   string \<Rightarrow> controller \<Rightarrow> exn option \<times> controller" where
  "save_try now1 now2 rnd fault i text c =
     (case fault 0 of
        Some msg \<Rightarrow> (Some (DatabaseError msg), c)
      | None \<Rightarrow>
          let c1 = c\<lparr>model := save_rewrite now1 i text (model c)\<rparr>
          in case fault 1 of
               Some msg \<Rightarrow> (Some (DatabaseError msg), c1)
             | None \<Rightarrow>
                 let c2 = c1\<lparr>model := mark_sentence_seen now2 i (model c1)\<rparr>;
                     c3 = c2\<lparr>window := clear_rewrite_text (window c2)\<rparr>
                 in load_next_sentence rnd (\<lambda>k. fault (k + 2)) c3)"

text \<open>
  \<^verbatim>\<open>if not self.current_sentence_id: return\<close> leaves on \<^verbatim>\<open>None\<close> and on 0. An empty
  rewrite is answered with an error box and a plain \<^verbatim>\<open>return\<close>. An exception of the
  \<^verbatim>\<open>try\<close> block is caught and shown in the box \<^verbatim>\<open>Save Failed\<close>; no exception leaves
  the handler.
\<close>

definition handle_save ::
  "timestamp \<Rightarrow> timestamp \<Rightarrow> (nat \<Rightarrow> 64 word) \<Rightarrow> (nat \<Rightarrow> string option) \<Rightarrow> controller \<Rightarrow>
   exn option \<times> controller" where
  "handle_save now1 now2 rnd fault c =
     (case current_sentence_id c of
        None \<Rightarrow> (None, c)
      | Some i \<Rightarrow>
          if i = 0 then (None, c)
          else let text = get_rewrite_text (window c)
               in if text = []
                  then (None, c\<lparr>window := show_error ''Error''
                                   ''Please write something before saving.'' (window c)\<rparr>)
                  else case save_try now1 now2 rnd fault i text c of
                         (Some e, c') \<Rightarrow>
                           (None, c'\<lparr>window := show_error ''Save Failed'' (exn_str e)
                                                 (window c')\<rparr>)
                       | (None, c') \<Rightarrow> (None, c'))"

text \<open>
  \<^verbatim>\<open>_handle_skip\<close> has no \<^verbatim>\<open>try\<close>: \<^verbatim>\<open>mark_sentence_seen\<close> is call 0, the calls of
  \<^verbatim>\<open>_load_next_sentence\<close> are 1 and 2, and an exception leaves the handler.
\<close>

definition handle_skip ::
  "timestamp \<Rightarrow> (nat \<Rightarrow> 64 word) \<Rightarrow> (nat \<Rightarrow> string option) \<Rightarrow> controller \<Rightarrow>
   exn option \<times> controller" where
  "handle_skip now rnd fault c =
     (case current_sentence_id c of
        None \<Rightarrow> (None, c)
      | Some i \<Rightarrow>
          if i = 0 then (None, c)
          else case fault 0 of
                 Some msg \<Rightarrow> (Some (DatabaseError msg), c)
               | None \<Rightarrow>
                   let c1 = c\<lparr>model := mark_sentence_seen now i (model c)\<rparr>;
                       c2 = c1\<lparr>window := clear_rewrite_text (window c1)\<rparr>
                   in load_next_sentence rnd (\<lambda>k. fault (k + 1)) c2)"

section \<open>Sequences of model operations\<close>

text \<open>
  What the controller can ask of the model between two reads: an import, a save, a mark,
  a reset. (An export writes a file and leaves the table as it is.)
\<close>

datatype action =
    Import "nat \<Rightarrow> string option" "nat \<Rightarrow> timestamp" "exn + dataframe"
  | SaveRewrite timestamp int string
  | MarkSeen timestamp int
  | Reset

fun apply_action :: "action \<Rightarrow> store \<Rightarrow> store" where
  "apply_action (Import fault clock parsed) db = snd (import_csv fault clock parsed db)"
| "apply_action (SaveRewrite now i text) db = save_rewrite now i text db"
| "apply_action (MarkSeen now i) db = mark_sentence_seen now i db"
| "apply_action Reset db = reset_session db"

fun is_reset :: "action \<Rightarrow> bool" where
  "is_reset Reset = True"
| "is_reset _ = False"

fun run :: "action list \<Rightarrow> store \<Rightarrow> store" where
  "run [] db = db"
| "run (a # as) db = run as (apply_action a db)"

text \<open>The number of rows with a rewrite, as \<^verbatim>\<open>get_progress_stats\<close> counts them.\<close>

definition completed_count :: "store \<Rightarrow> nat" where
  "completed_count db = length (filter (\<lambda>r. rewrite r \<noteq> None) db)"

section \<open>Auxiliary notions and sample data\<close>

text \<open>The text the import loop works with for one row, and whether it is blank.\<close>

definition trimmed :: "string list \<Rightarrow> cell list \<Rightarrow> string" where
  "trimmed cols row = strip (py_str (row_get cols row ''sentence''))"

definition blank :: "string list \<Rightarrow> cell list \<Rightarrow> bool" where
  "blank cols row = (trimmed cols row = [])"

text \<open>
  The table holds a row with id \<open>i\<close>, and every row with that id is marked seen.
\<close>

definition stays_seen :: "int \<Rightarrow> store \<Rightarrow> bool" where
  "stays_seen i db = (i \<in> set (map sid db) \<and> list_all (\<lambda>r. sid r = i \<longrightarrow> seen r) db)"

text \<open>Two rows of the table: one untouched, one rewritten and seen.\<close>

definition cat_row :: sentence where
  "cat_row = \<lparr>sid = 1, original = ''The cat sat.'', rewrite = None, seen = False,
              created_at = ''2024-01-01 09:00:00'', updated_at = None\<rparr>"

definition dog_row :: sentence where
  "dog_row = \<lparr>sid = 2, original = ''Dogs run fast.'', rewrite = Some ''Dogs sprint.'',
              seen = True, created_at = ''2024-01-01 09:00:00'',
              updated_at = Some ''2024-01-02 10:30:00''\<rparr>"

text \<open>Environments: a clock that stands still, a database without faults, one whose disk
  fills up while row 1 is processed, and a random source that always draws 0.\<close>

definition noon :: "nat \<Rightarrow> timestamp" where
  "noon i = ''2024-01-01 12:00:00''"

definition no_fault :: "nat \<Rightarrow> string option" where
  "no_fault i = None"

definition disk_full_at_1 :: "nat \<Rightarrow> string option" where
  "disk_full_at_1 i = (if i = 1 then Some ''database or disk is full'' else None)"

definition always_zero :: "nat \<Rightarrow> 64 word" where
  "always_zero k = 0"

text \<open>Frames as \<^verbatim>\<open>pd.read_csv\<close> delivers them.\<close>

definition two_rows :: dataframe where
  "two_rows = \<lparr>columns = [''sentence''],
               rows = [[Str ''The cat sat.''], [Str ''Dogs run fast.'']]\<rparr>"

definition capitalised :: dataframe where
  "capitalised = \<lparr>columns = [''Sentence'', ''text''],
                  rows = [[Str ''The cat sat.'', Str ''Dogs run fast.'']]\<rparr>"

text \<open>
  The file
  \<^verbatim>\<open>
  sentence,note
  The cat sat.,a
  ,b
  \<close>
  whose second row has an empty \<^verbatim>\<open>sentence\<close> field:
\<close>

definition with_notes :: dataframe where
  "with_notes = \<lparr>columns = [''sentence'', ''note''],
                 rows = [[Str ''The cat sat.'', Str ''a''], [NaN, Str ''b'']]\<rparr>"

text \<open>
  A file with the single column \<^verbatim>\<open>sentence\<close>; a whitespace-only field in a wider file
  arrives as the second row does, and a blank line of a one-column file is dropped by the
  parser before the loop sees it.
\<close>

definition single_column :: dataframe where
  "single_column = \<lparr>columns = [''sentence''],
      rows = [[Str ''The cat sat.''], [Str ''   ''], [Str '' The cat sat. ''],
              [Str ''Dogs run fast.'']]\<rparr>"

definition more_sentences :: dataframe where
  "more_sentences = \<lparr>columns = [''sentence''], rows = [[Str ''Birds sing.'']]\<rparr>"

definition practice :: "action list" where
  "practice = [SaveRewrite ''2024-01-03 08:00:00'' 1 ''A cat sat.'',
               Import no_fault noon (Inr more_sentences),
               MarkSeen ''2024-01-03 08:05:00'' 2]"

text \<open>The controller showing the first row, with \<open>typed\<close> in the rewrite box.\<close>

definition at_cat :: "string \<Rightarrow> controller" where
  "at_cat typed =
     \<lparr>model = [cat_row, dog_row],
      window = \<lparr>sentence_text = ''The cat sat.'', rewrite_text = typed, progress = (1, 2),
                dialogs = []\<rparr>,
      current_sentence_id = Some 1, current_sentence_text = Some ''The cat sat.''\<rparr>"

section \<open>Properties of the model layer\<close>

subsection \<open>Row ids\<close>

lemma sid_le_max_id: "r \<in> set db \<Longrightarrow> sid r \<le> max_id db"
  by (induction db) auto

lemma max_id_fresh: "r \<in> set db \<Longrightarrow> sid r \<noteq> max_id db + 1"
  using sid_le_max_id [of r db] by simp

lemma map_sid_mark: "map sid (mark_sentence_seen now j db) = map sid db"
  by (induction db) (simp_all add: mark_sentence_seen_def)

lemma map_sid_save: "map sid (save_rewrite now j text db) = map sid db"
  by (induction db) (simp_all add: save_rewrite_def)

subsection \<open>What a successful import does\<close>

text \<open>
  A run of the loop that raises nothing appends rows to the table and counts them; the
  originals it adds are the non-empty trimmed texts of the frame's rows; originals that
  were pairwise different stay so.
\<close>

lemma import_rows_extends:
  "import_rows fault clock cols i rws db n = Inr (db', n') \<Longrightarrow>
   \<exists>new. db' = db @ new \<and> n' = n + length new"
proof (induction rws arbitrary: i db n)
  case Nil
  then show ?case by simp
next
  case (Cons row rest)
  then show ?case
    by (fastforce simp: Let_def insert_sentence_def split: if_splits option.splits)
qed

lemma import_rows_originals:
  "import_rows fault clock cols i rws db n = Inr (db', n') \<Longrightarrow>
   set (map original db') = set (map original db) \<union> (set (map (trimmed cols) rws) - {[]})"
proof (induction rws arbitrary: i db n)
  case Nil
  then show ?case by simp
next
  case (Cons row rest)
  show ?case
  proof (cases "trimmed cols row = []")
    case True
    with Cons show ?thesis by (auto simp: trimmed_def)
  next
    case False
    show ?thesis
    proof (cases "find (\<lambda>r. original r = trimmed cols row) db = None")
      case True
      with Cons False show ?thesis
        by (auto simp: trimmed_def Let_def insert_sentence_def split: option.splits)
    next
      case dup: False
      then obtain x where x: "x \<in> set db" "original x = trimmed cols row"
        by (auto simp: find_None_iff)
      then have "trimmed cols row \<in> original ` set db" by (metis imageI)
      then have "trimmed cols row \<in> set (map original db)" by simp
      with Cons False dup show ?thesis
        by (auto simp: trimmed_def Let_def split: option.splits)
    qed
  qed
qed

lemma import_rows_distinct:
  "distinct (map original db) \<Longrightarrow> import_rows fault clock cols i rws db n = Inr (db', n') \<Longrightarrow>
   distinct (map original db')"
proof (induction rws arbitrary: i db n)
  case Nil
  then show ?case by simp
next
  case (Cons row rest)
  have ins: "find (\<lambda>r. original r = s) db = None \<Longrightarrow>
             distinct (map original (insert_sentence t s db))" for s t
    using Cons.prems(1) by (auto simp: insert_sentence_def find_None_iff)
  from Cons.prems(2) show ?case
    by (auto simp: Let_def split: if_splits option.splits intro: Cons.IH Cons.prems(1) ins)
qed

text \<open>
  The frame \<open>single_column\<close>: the whitespace-only row and the row that repeats the first
  one after trimming are left out, two rows are inserted.
\<close>

lemma import_csv_single_column:
  "fst (import_csv no_fault noon (Inr single_column) []) = Inr 2 \<and>
   map original (snd (import_csv no_fault noon (Inr single_column) []))
     = [''The cat sat.'', ''Dogs run fast.'']"
  by (simp add: import_csv_def import_body_def single_column_def no_fault_def noon_def
      row_get_def strip_def isspace_def insert_sentence_def)

subsection \<open>The first fault ends the loop\<close>

lemma import_rows_first_fault:
  assumes "k < length rws" "\<not> blank cols (rws ! k)" "fault (i + k) = Some msg"
    and "\<forall>j < k. fault (i + j) = None"
  shows "import_rows fault clock cols i rws db n = Inl (DatabaseError msg)"
  using assms
proof (induction rws arbitrary: i k db n)
  case Nil
  then show ?case by simp
next
  case (Cons row rest)
  show ?case
  proof (cases k)
    case 0
    with Cons.prems show ?thesis by (simp add: blank_def trimmed_def)
  next
    case (Suc k')
    have f0: "fault i = None" using Cons.prems(4) Suc by force
    have rec: "import_rows fault clock cols (Suc i) rest db' n' = Inl (DatabaseError msg)"
      for db' n'
    proof (rule Cons.IH [of k' "Suc i"])
      show "k' < length rest" using Cons.prems(1) Suc by simp
      show "\<not> blank cols (rest ! k')" using Cons.prems(2) Suc by simp
      show "fault (Suc i + k') = Some msg" using Cons.prems(3) Suc by simp
      show "\<forall>j<k'. fault (Suc i + j) = None"
      proof (intro allI impI)
        fix j assume "j < k'"
        then have "Suc j < k" using Suc by simp
        then have "fault (i + Suc j) = None" using Cons.prems(4) by blast
        then show "fault (Suc i + j) = None" by simp
      qed
    qed
    show ?thesis by (simp add: Let_def f0 rec)
  qed
qed

subsection \<open>What the random query can return\<close>

text \<open>
  The query finds nothing exactly when every row is seen; what it returns is the id and
  original of an unseen row; and every unseen row is returned for some draw of the random
  values. How likely each row is depends on the distribution of \<^verbatim>\<open>RANDOM()\<close>, which
  these lemmas do not speak about.
\<close>

lemma get_random_unseen_sentence_None_iff:
  "get_random_unseen_sentence rnd db = None \<longleftrightarrow> (\<forall>r \<in> set db. seen r)"
proof -
  let ?unseen = "filter (\<lambda>r. \<not> seen r) db"
  let ?kr = "zip (map rnd [0..<length ?unseen]) ?unseen"
  let ?ordered = "sort_key (\<lambda>kr. sint (fst kr)) ?kr"
  have "length ?ordered = length ?unseen" by simp
  then have "?ordered = [] \<longleftrightarrow> ?unseen = []" by (metis length_0_conv)
  moreover have "get_random_unseen_sentence rnd db = None \<longleftrightarrow> ?ordered = []"
    by (cases ?ordered) (simp_all add: get_random_unseen_sentence_def)
  ultimately show ?thesis by (auto simp: filter_empty_conv)
qed

lemma get_random_unseen_sentence_Some:
  assumes "get_random_unseen_sentence rnd db = Some (i, t)"
  shows "\<exists>r \<in> set db. sid r = i \<and> original r = t \<and> \<not> seen r"
proof -
  let ?unseen = "filter (\<lambda>r. \<not> seen r) db"
  let ?kr = "zip (map rnd [0..<length ?unseen]) ?unseen"
  let ?ordered = "sort_key (\<lambda>kr. sint (fst kr)) ?kr"
  from assms obtain kr rest where o: "?ordered = kr # rest"
    and i: "sid (snd kr) = i" and t: "original (snd kr) = t"
    by (cases ?ordered) (auto simp: get_random_unseen_sentence_def)
  have "kr \<in> set ?ordered" using o by simp
  then have "kr \<in> set ?kr" by simp
  then have "snd kr \<in> set ?unseen" by (metis in_set_zipE prod.collapse)
  then show ?thesis using i t by auto
qed

lemma sorted_hd_least:
  assumes "sorted (map f xs)" "x \<in> set xs" "xs = y # ys"
  shows "f y \<le> f x"
  using assms by auto

lemma unseen_record_can_be_picked:
  assumes "r \<in> set db" "\<not> seen r"
  shows "\<exists>rnd. get_random_unseen_sentence rnd db = Some (sid r, original r)"
proof -
  let ?unseen = "filter (\<lambda>r. \<not> seen r) db"
  from assms have "r \<in> set ?unseen" by simp
  then obtain j where j: "j < length ?unseen" "?unseen ! j = r"
    by (metis in_set_conv_nth)
  define rnd :: "nat \<Rightarrow> 64 word" where "rnd = (\<lambda>k. if k = j then 0 else 1)"
  let ?kr = "zip (map rnd [0..<length ?unseen]) ?unseen"
  let ?ordered = "sort_key (\<lambda>kr. sint (fst kr)) ?kr"
  have mem: "(0, r) \<in> set ?kr"
    using j by (auto simp: in_set_zip rnd_def intro!: exI [of _ j])
  then have "?ordered \<noteq> []" by (metis empty_iff set_empty set_sort)
  then obtain kr rest where o: "?ordered = kr # rest" by (cases ?ordered) auto
  have "sorted (map (\<lambda>kr. sint (fst kr)) ?ordered)" by (rule sorted_sort_key)
  moreover have "(0, r) \<in> set ?ordered" using mem by simp
  ultimately have "sint (fst kr) \<le> sint (fst (0 :: 64 word, r))"
    using o sorted_hd_least [of "\<lambda>kr. sint (fst kr)" ?ordered "(0, r)" kr rest] by blast
  then have le: "sint (fst kr) \<le> 0" by simp
  have "kr \<in> set ?kr" using o by (metis list.set_intros(1) set_sort)
  then obtain m where m: "m < length ?unseen" "kr = (rnd m, ?unseen ! m)"
    by (auto simp: in_set_zip)
  have "m = j"
  proof (rule ccontr)
    assume "m \<noteq> j"
    then have "fst kr = 1" using m by (simp add: rnd_def)
    then show False using le by simp
  qed
  then have "snd kr = r" using m j by simp
  then have "get_random_unseen_sentence rnd db = Some (sid r, original r)"
    using o by (simp add: get_random_unseen_sentence_def)
  then show ?thesis by blast
qed

subsection \<open>A seen row stays seen until a reset\<close>

lemma stays_seen_insert:
  assumes "stays_seen i db"
  shows "stays_seen i (insert_sentence now s db)"
proof -
  from assms obtain r where "r \<in> set db" "sid r = i" by (auto simp: stays_seen_def)
  then have "max_id db + 1 \<noteq> i" using max_id_fresh [of r db] by auto
  then show ?thesis using assms by (simp add: stays_seen_def insert_sentence_def)
qed

lemma stays_seen_import_rows:
  "stays_seen i db \<Longrightarrow> import_rows fault clock cols k rws db n = Inr (db', n') \<Longrightarrow>
   stays_seen i db'"
proof (induction rws arbitrary: k db n)
  case Nil
  then show ?case by simp
next
  case (Cons row rest)
  then show ?case
    by (auto simp: Let_def split: if_splits option.splits dest: stays_seen_insert)
qed

lemma stays_seen_import_csv:
  "stays_seen i db \<Longrightarrow> stays_seen i (snd (import_csv fault clock parsed db))"
  by (auto simp: import_csv_def import_body_def split: sum.splits if_splits
           dest: stays_seen_import_rows)

lemma stays_seen_mark: "stays_seen i db \<Longrightarrow> stays_seen i (mark_sentence_seen now j db)"
  unfolding stays_seen_def map_sid_mark
  by (auto simp: mark_sentence_seen_def list_all_iff)

lemma stays_seen_save: "stays_seen i db \<Longrightarrow> stays_seen i (save_rewrite now j text db)"
  unfolding stays_seen_def map_sid_save
  by (auto simp: save_rewrite_def list_all_iff)

lemma stays_seen_apply:
  "stays_seen i db \<Longrightarrow> \<not> is_reset a \<Longrightarrow> stays_seen i (apply_action a db)"
  by (cases a) (simp_all add: stays_seen_import_csv stays_seen_mark stays_seen_save)

lemma stays_seen_run:
  "stays_seen i db \<Longrightarrow> list_all (\<lambda>a. \<not> is_reset a) as \<Longrightarrow> stays_seen i (run as db)"
  by (induction as arbitrary: db) (simp_all add: stays_seen_apply)

lemma mark_establishes_stays_seen:
  "i \<in> set (map sid db) \<Longrightarrow> stays_seen i (mark_sentence_seen now i db)"
  unfolding stays_seen_def map_sid_mark
  by (auto simp: mark_sentence_seen_def list_all_iff)

subsection \<open>The controller\<close>

lemma model_load_next_sentence: "model (snd (load_next_sentence rnd fault c)) = model c"
  by (simp add: load_next_sentence_def Let_def split: option.splits prod.splits)

lemma dialogs_load_next_sentence:
  "dialogs (window (snd (load_next_sentence rnd fault c))) = dialogs (window c)"
  by (simp add: load_next_sentence_def Let_def set_sentence_text_def update_progress_def
      split: option.splits prod.splits)

lemma saved_then_marked:
  "list_all (\<lambda>r. sid r = i \<longrightarrow> rewrite r = Some text \<and> seen r \<and> updated_at r = Some now2)
     (mark_sentence_seen now2 i (save_rewrite now1 i text db))"
  by (induction db) (simp_all add: mark_sentence_seen_def save_rewrite_def)

text \<open>What the \<^verbatim>\<open>try\<close> block of the save handler leaves in the table.\<close>

lemma save_try_first_fault:
  "fault 0 = Some msg \<Longrightarrow> save_try now1 now2 rnd fault i text c = (Some (DatabaseError msg), c)"
  by (simp add: save_try_def)

lemma save_try_second_fault:
  "fault 0 = None \<Longrightarrow> fault 1 = Some msg \<Longrightarrow>
   save_try now1 now2 rnd fault i text c
     = (Some (DatabaseError msg), c\<lparr>model := save_rewrite now1 i text (model c)\<rparr>)"
  by (simp add: save_try_def)

lemma save_try_both_written:
  "fault 0 = None \<Longrightarrow> fault 1 = None \<Longrightarrow>
   model (snd (save_try now1 now2 rnd fault i text c))
     = mark_sentence_seen now2 i (save_rewrite now1 i text (model c))"
  by (simp add: save_try_def Let_def model_load_next_sentence)

lemma handle_save_returns: "fst (handle_save now1 now2 rnd fault c) = None"
  by (simp add: handle_save_def Let_def split: option.splits prod.splits)

lemma handle_save_model:
  "current_sentence_id c = Some i \<Longrightarrow> i \<noteq> 0 \<Longrightarrow> strip (rewrite_text (window c)) \<noteq> [] \<Longrightarrow>
   model (snd (handle_save now1 now2 rnd fault c))
     = model (snd (save_try now1 now2 rnd fault i (strip (rewrite_text (window c))) c))"
  by (simp add: handle_save_def get_rewrite_text_def Let_def split: option.splits prod.splits)

text \<open>Skip marks the current row seen and touches nothing else of the table.\<close>

lemma model_handle_skip:
  "current_sentence_id c = Some i \<Longrightarrow> i \<noteq> 0 \<Longrightarrow> fault 0 = None \<Longrightarrow>
   model (snd (handle_skip now rnd fault c)) = mark_sentence_seen now i (model c)"
  by (simp add: handle_skip_def Let_def model_load_next_sentence)

section \<open>The claims\<close>

subsection \<open>C1: what get_progress_stats returns\<close>

text \<open>
  Claim C1, as the code has it: for every table, \<open>get_progress_stats\<close> returns the pair
  whose first component is the number of all rows and whose second component is the
  number of rows with a rewrite. The total comes first, the completed count second.
\<close>

theorem get_progress_stats_total_first:
  "fst (get_progress_stats db) = length db \<and> snd (get_progress_stats db) = completed_count db"
  by (simp add: get_progress_stats_def completed_count_def)

theorem get_progress_stats_total_first_witness:
  "get_progress_stats [cat_row, dog_row] = (2, 1)"
  using get_progress_stats_total_first [of "[cat_row, dog_row]"]
  by (simp add: prod_eq_iff completed_count_def cat_row_def dog_row_def)

text \<open>
  On a table of one row without a rewrite the first component is 1 while the completed
  count is 0: the pair is not (completed, total).
\<close>

theorem get_progress_stats_completed_first_counterexample:
  "fst (get_progress_stats [cat_row]) = 1 \<and> completed_count [cat_row] = 0 \<and>
   get_progress_stats [cat_row] \<noteq> (completed_count [cat_row], length [cat_row])"
  by (simp add: get_progress_stats_def completed_count_def cat_row_def)

subsection \<open>C2: an import that fails commits nothing\<close>

text \<open>
  Claim C2, as the code has it: when the frame has the column \<^verbatim>\<open>sentence\<close> and the
  first database fault strikes while a non-blank row \<open>k\<close> is processed, \<open>import_csv\<close>
  raises the wrapped exception and the committed table is the table before the call:
  the rows inserted before row \<open>k\<close> are rolled back with the transaction.
\<close>

theorem import_csv_error_rolls_back:
  assumes "''sentence'' \<in> set (columns df)"
    and "k < length (rows df)"
    and "\<not> blank (columns df) (rows df ! k)"
    and "fault k = Some msg"
    and "\<forall>j < k. fault j = None"
  shows "import_csv fault clock (Inr df) db
           = (Inl (Exception (''Failed to import CSV: '' @ msg)), db)"
proof -
  have "import_rows fault clock (columns df) 0 (rows df) db 0 = Inl (DatabaseError msg)"
    using assms(2-5) import_rows_first_fault [of k "rows df" "columns df" fault 0 msg] by simp
  then show ?thesis using assms(1) by (simp add: import_csv_def import_body_def)
qed

theorem import_csv_error_rolls_back_witness:
  "import_csv disk_full_at_1 noon (Inr two_rows) [dog_row]
     = (Inl (Exception ''Failed to import CSV: database or disk is full''), [dog_row])"
proof -
  have "''sentence'' \<in> set (columns two_rows)" by (simp add: two_rows_def)
  moreover have "(1::nat) < length (rows two_rows)" by (simp add: two_rows_def)
  moreover have "\<not> blank (columns two_rows) (rows two_rows ! 1)"
    by (simp add: two_rows_def blank_def trimmed_def row_get_def strip_def isspace_def)
  moreover have "disk_full_at_1 1 = Some ''database or disk is full''"
    by (simp add: disk_full_at_1_def)
  moreover have "\<forall>j < (1::nat). disk_full_at_1 j = None" by (simp add: disk_full_at_1_def)
  ultimately show ?thesis
    using import_csv_error_rolls_back
      [of two_rows 1 disk_full_at_1 "''database or disk is full''" noon "[dog_row]"]
    by simp
qed

text \<open>
  An empty table, the frame \<open>two_rows\<close>, the disk full at row 1. The loop over the rows
  before row 1 inserts the first sentence; the whole import raises and the committed
  table is still empty.
\<close>

theorem import_csv_partial_success_counterexample:
  "import_rows disk_full_at_1 noon (columns two_rows) 0 (take 1 (rows two_rows)) [] 0
     = Inr ([\<lparr>sid = 1, original = ''The cat sat.'', rewrite = None, seen = False,
              created_at = ''2024-01-01 12:00:00'', updated_at = None\<rparr>], 1) \<and>
   import_csv disk_full_at_1 noon (Inr two_rows) []
     = (Inl (Exception ''Failed to import CSV: database or disk is full''), [])"
  by (simp add: import_csv_def import_body_def two_rows_def disk_full_at_1_def noon_def
      row_get_def strip_def isspace_def insert_sentence_def)

subsection \<open>C3: a blank field is imported as the sentence nan\<close>

text \<open>
  Claim C3 says that a row whose value in the text column is blank is skipped and not
  counted. On an empty table, with the frame of the file \<open>with_notes\<close>, whose second row
  has an empty \<^verbatim>\<open>sentence\<close> field, \<open>import_csv\<close> returns 2 and the table holds a
  second row whose original is \<^verbatim>\<open>nan\<close>: the test \<^verbatim>\<open>if not sentence\<close> sees the text
  of the missing value, which is not empty.
\<close>

theorem import_csv_blank_field_inserted:
  "import_csv no_fault noon (Inr with_notes) []
     = (Inr 2,
        [\<lparr>sid = 1, original = ''The cat sat.'', rewrite = None, seen = False,
          created_at = ''2024-01-01 12:00:00'', updated_at = None\<rparr>,
         \<lparr>sid = 2, original = ''nan'', rewrite = None, seen = False,
          created_at = ''2024-01-01 12:00:00'', updated_at = None\<rparr>])"
  by (simp add: import_csv_def import_body_def with_notes_def no_fault_def noon_def
      row_get_def strip_def isspace_def insert_sentence_def)

subsection \<open>C4: saving validates the rewrite\<close>

text \<open>
  Claim C4, as the code has it. With a current sentence, \<open>handle_save\<close> never raises.
  When the text of the rewrite box is empty after trimming, it shows the error box
  \<^verbatim>\<open>Please write something before saving.\<close> and returns, and nothing else of the
  controller changes: the table, and so every row's rewrite and seen field, is as before.
  When the text is not empty, the rewrite is written first and the row marked seen second:
  if the first update fails nothing is written, if the second update fails the table is
  the one with the trimmed text saved and the row not marked, in both cases the box
  \<^verbatim>\<open>Save Failed\<close> shows the fault; if neither fails, both updates are applied, every
  row with the current id has the trimmed text as its rewrite and is seen, and no row is
  added or removed.
\<close>

theorem handle_save_validation:
  assumes "current_sentence_id c = Some i" and "i \<noteq> 0"
  shows "fst (handle_save now1 now2 rnd fault c) = None \<and>
         (strip (rewrite_text (window c)) = [] \<longrightarrow>
            snd (handle_save now1 now2 rnd fault c)
              = c\<lparr>window := show_error ''Error'' ''Please write something before saving.''
                               (window c)\<rparr>) \<and>
         (strip (rewrite_text (window c)) \<noteq> [] \<longrightarrow>
            (\<forall>msg. fault 0 = Some msg \<longrightarrow>
               snd (handle_save now1 now2 rnd fault c)
                 = c\<lparr>window := show_error ''Save Failed'' msg (window c)\<rparr>) \<and>
            (\<forall>msg. fault 0 = None \<and> fault 1 = Some msg \<longrightarrow>
               snd (handle_save now1 now2 rnd fault c)
                 = c\<lparr>model := save_rewrite now1 i (strip (rewrite_text (window c))) (model c),
                     window := show_error ''Save Failed'' msg (window c)\<rparr>) \<and>
            (fault 0 = None \<and> fault 1 = None \<longrightarrow>
               model (snd (handle_save now1 now2 rnd fault c))
                 = mark_sentence_seen now2 i
                     (save_rewrite now1 i (strip (rewrite_text (window c))) (model c)) \<and>
               list_all (\<lambda>r. sid r = i \<longrightarrow>
                             rewrite r = Some (strip (rewrite_text (window c))) \<and> seen r)
                 (model (snd (handle_save now1 now2 rnd fault c))) \<and>
               map sid (model (snd (handle_save now1 now2 rnd fault c))) = map sid (model c)))"
proof (cases "strip (rewrite_text (window c)) = []")
  case True
  with assms show ?thesis
    by (simp add: handle_save_returns) (simp add: handle_save_def get_rewrite_text_def)
next
  case False
  let ?text = "strip (rewrite_text (window c))"
  let ?db = "mark_sentence_seen now2 i (save_rewrite now1 i ?text (model c))"
  have first: "snd (handle_save now1 now2 rnd fault c)
                 = c\<lparr>window := show_error ''Save Failed'' msg (window c)\<rparr>"
    if "fault 0 = Some msg" for msg
    using assms False that
    by (simp add: handle_save_def get_rewrite_text_def save_try_first_fault)
  have second: "snd (handle_save now1 now2 rnd fault c)
                 = c\<lparr>model := save_rewrite now1 i ?text (model c),
                     window := show_error ''Save Failed'' msg (window c)\<rparr>"
    if "fault 0 = None \<and> fault 1 = Some msg" for msg
    using assms False that
    by (simp add: handle_save_def get_rewrite_text_def save_try_second_fault)
  have both: "model (snd (handle_save now1 now2 rnd fault c)) = ?db"
    if "fault 0 = None \<and> fault 1 = None"
    using assms False that by (simp add: handle_save_model save_try_both_written)
  have "list_all (\<lambda>r. sid r = i \<longrightarrow> rewrite r = Some ?text \<and> seen r) ?db"
    using saved_then_marked [of i ?text now2 now1 "model c"] by (simp add: list_all_iff)
  moreover have "map sid ?db = map sid (model c)" by (simp add: map_sid_mark map_sid_save)
  ultimately show ?thesis using False first second both by (simp add: handle_save_returns)
qed

theorem handle_save_validation_witness:
  "model (snd (handle_save ''2024-01-03 08:00:00'' ''2024-01-03 08:00:01'' always_zero no_fault
                 (at_cat ''   '')))
     = [cat_row, dog_row] \<and>
   model (snd (handle_save ''2024-01-03 08:00:00'' ''2024-01-03 08:00:01'' always_zero no_fault
                 (at_cat [])))
     = [cat_row, dog_row] \<and>
   model (snd (handle_save ''2024-01-03 08:00:00'' ''2024-01-03 08:00:01'' always_zero no_fault
                 (at_cat '' A cat sat. '')))
     = [cat_row\<lparr>rewrite := Some ''A cat sat.'', seen := True,
                updated_at := Some ''2024-01-03 08:00:01''\<rparr>, dog_row] \<and>
   model (snd (handle_save ''2024-01-03 08:00:00'' ''2024-01-03 08:00:01'' always_zero
                 disk_full_at_1 (at_cat '' A cat sat. '')))
     = [cat_row\<lparr>rewrite := Some ''A cat sat.'',
                updated_at := Some ''2024-01-03 08:00:00''\<rparr>, dog_row] \<and>
   model (snd (handle_save ''2024-01-03 08:00:00'' ''2024-01-03 08:00:01'' always_zero
                 (\<lambda>k. Some ''database is locked'') (at_cat '' A cat sat. '')))
     = [cat_row, dog_row]"
proof -
  have i: "current_sentence_id (at_cat typed) = Some 1" for typed by (simp add: at_cat_def)
  have b: "strip (rewrite_text (window (at_cat ''   ''))) = []"
    "strip (rewrite_text (window (at_cat []))) = []"
    "strip (rewrite_text (window (at_cat '' A cat sat. ''))) = ''A cat sat.''"
    by (simp_all add: at_cat_def strip_def isspace_def)
  have one: "(1::int) \<noteq> 0" by simp
  note v = handle_save_validation [where ?i = 1 and ?now1.0 = "''2024-01-03 08:00:00''"
      and ?now2.0 = "''2024-01-03 08:00:01''" and ?rnd = always_zero, OF i one]
  show ?thesis
    using v [of no_fault "''   ''"] v [of no_fault "[]"] v [of no_fault "'' A cat sat. ''"]
      v [of disk_full_at_1 "'' A cat sat. ''"]
      v [of "\<lambda>k. Some ''database is locked''" "'' A cat sat. ''"]
      b
    by (simp add: at_cat_def cat_row_def dog_row_def mark_sentence_seen_def save_rewrite_def
        no_fault_def disk_full_at_1_def)
qed

text \<open>
  The rewrite box holds three blanks: the handler returns without an exception, the only
  trace is the error box. And with a rewrite typed and the disk full at the second
  update, the rewrite is written while the row is still unseen: not both updates are
  applied.
\<close>

theorem handle_save_raises_nothing_counterexample:
  "fst (handle_save ''2024-01-03 08:00:00'' ''2024-01-03 08:00:01'' always_zero no_fault
          (at_cat ''   '')) = None \<and>
   dialogs (window (snd (handle_save ''2024-01-03 08:00:00'' ''2024-01-03 08:00:01''
                           always_zero no_fault (at_cat ''   ''))))
     = [ErrorDialog ''Error'' ''Please write something before saving.''] \<and>
   map rewrite (model (snd (handle_save ''2024-01-03 08:00:00'' ''2024-01-03 08:00:01''
                              always_zero disk_full_at_1 (at_cat '' A cat sat. ''))))
     = [Some ''A cat sat.'', Some ''Dogs sprint.''] \<and>
   map seen (model (snd (handle_save ''2024-01-03 08:00:00'' ''2024-01-03 08:00:01''
                           always_zero disk_full_at_1 (at_cat '' A cat sat. ''))))
     = [False, True] \<and>
   dialogs (window (snd (handle_save ''2024-01-03 08:00:00'' ''2024-01-03 08:00:01''
                           always_zero disk_full_at_1 (at_cat '' A cat sat. ''))))
     = [ErrorDialog ''Save Failed'' ''database or disk is full'']"
  by (simp add: handle_save_def save_try_def get_rewrite_text_def show_error_def at_cat_def
      strip_def isspace_def no_fault_def disk_full_at_1_def save_rewrite_def cat_row_def
      dog_row_def)

subsection \<open>C5: a seen row is not offered again\<close>

text \<open>
  Claim C5: once a row of the table has been marked seen, then after any sequence of
  imports, saves and marks without a reset, \<open>get_random_unseen_sentence\<close> does not return
  that row's id, whatever the random values; and whatever it returns on any table is the
  id and original of a row with \<open>seen\<close> false.
\<close>

theorem seen_never_returned:
  assumes "i \<in> set (map sid db)" and "list_all (\<lambda>a. \<not> is_reset a) as"
  shows "get_random_unseen_sentence rnd (run as (mark_sentence_seen now i db)) \<noteq> Some (i, t) \<and>
         (get_random_unseen_sentence rnd db = Some (j, u) \<longrightarrow>
            (\<exists>r \<in> set db. sid r = j \<and> original r = u \<and> \<not> seen r))"
proof -
  have "get_random_unseen_sentence rnd (run as (mark_sentence_seen now i db)) \<noteq> Some (i, t)"
  proof
    assume "get_random_unseen_sentence rnd (run as (mark_sentence_seen now i db)) = Some (i, t)"
    then obtain r where r: "r \<in> set (run as (mark_sentence_seen now i db))"
      "sid r = i" "\<not> seen r"
      using get_random_unseen_sentence_Some by blast
    have "stays_seen i (run as (mark_sentence_seen now i db))"
      using assms by (simp add: mark_establishes_stays_seen stays_seen_run)
    then show False using r by (auto simp: stays_seen_def list_all_iff)
  qed
  then show ?thesis using get_random_unseen_sentence_Some by blast
qed

theorem seen_never_returned_witness:
  "get_random_unseen_sentence always_zero
     (run practice (mark_sentence_seen ''2024-01-03 07:59:00'' 1 [cat_row, dog_row]))
     = Some (3, ''Birds sing.'') \<and>
   get_random_unseen_sentence always_zero [cat_row, dog_row] = Some (1, ''The cat sat.'')"
proof -
  have a: "(1::int) \<in> set (map sid [cat_row, dog_row])" by (simp add: cat_row_def)
  have b: "list_all (\<lambda>a. \<not> is_reset a) practice" by (simp add: practice_def)
  have c: "get_random_unseen_sentence always_zero [cat_row, dog_row]
             = Some (1, ''The cat sat.'')"
    by (simp add: get_random_unseen_sentence_def cat_row_def dog_row_def always_zero_def)
  have d: "run practice (mark_sentence_seen ''2024-01-03 07:59:00'' 1 [cat_row, dog_row])
     = [cat_row\<lparr>rewrite := Some ''A cat sat.'', seen := True,
                updated_at := Some ''2024-01-03 08:00:00''\<rparr>,
        dog_row\<lparr>updated_at := Some ''2024-01-03 08:05:00''\<rparr>,
        \<lparr>sid = 3, original = ''Birds sing.'', rewrite = None, seen = False,
          created_at = ''2024-01-01 12:00:00'', updated_at = None\<rparr>]"
    by (simp add: practice_def mark_sentence_seen_def save_rewrite_def import_csv_def
        import_body_def more_sentences_def no_fault_def noon_def row_get_def strip_def
        isspace_def insert_sentence_def cat_row_def dog_row_def)
  have e: "get_random_unseen_sentence always_zero
     (run practice (mark_sentence_seen ''2024-01-03 07:59:00'' 1 [cat_row, dog_row]))
     = Some (3, ''Birds sing.'')"
    unfolding d
    by (simp add: get_random_unseen_sentence_def cat_row_def dog_row_def always_zero_def)
  show ?thesis
    using seen_never_returned [OF a b, of always_zero "''2024-01-03 07:59:00''"
        "''The cat sat.''" 1 "''The cat sat.''"] c e
    by simp
qed

subsection \<open>C6: reset_session\<close>

text \<open>
  Claim C6: \<open>reset_session\<close> keeps the number of rows and every row's id, original and
  creation time, and leaves every row unseen, without rewrite and without update time.
  After it the completed count is 0, the total is the one before, and every row of the
  table is returned by \<open>get_random_unseen_sentence\<close> for some draw of the random values.
\<close>

theorem reset_session_frame:
  "length (reset_session db) = length db \<and>
   map sid (reset_session db) = map sid db \<and>
   map original (reset_session db) = map original db \<and>
   map created_at (reset_session db) = map created_at db \<and>
   list_all (\<lambda>r. \<not> seen r \<and> rewrite r = None \<and> updated_at r = None) (reset_session db) \<and>
   get_progress_stats (reset_session db) = (fst (get_progress_stats db), 0) \<and>
   (\<forall>r \<in> set (reset_session db).
      \<exists>rnd. get_random_unseen_sentence rnd (reset_session db) = Some (sid r, original r))"
proof -
  have unseen: "list_all (\<lambda>r. \<not> seen r \<and> rewrite r = None \<and> updated_at r = None)
                  (reset_session db)"
    by (simp add: reset_session_def list_all_iff)
  then have "filter (\<lambda>r. rewrite r \<noteq> None) (reset_session db) = []"
    by (simp add: filter_empty_conv list_all_iff)
  then have stats: "get_progress_stats (reset_session db) = (fst (get_progress_stats db), 0)"
    by (simp add: get_progress_stats_def reset_session_def)
  have pick: "\<forall>r \<in> set (reset_session db).
      \<exists>rnd. get_random_unseen_sentence rnd (reset_session db) = Some (sid r, original r)"
    using unseen unseen_record_can_be_picked by (simp add: list_all_iff)
  have "map sid (reset_session db) = map sid db"
    "map original (reset_session db) = map original db"
    "map created_at (reset_session db) = map created_at db"
    by (simp_all add: reset_session_def)
  then show ?thesis using unseen stats pick by (simp add: reset_session_def)
qed

theorem reset_session_frame_witness:
  "get_progress_stats (reset_session [cat_row, dog_row]) = (2, 0) \<and>
   map original (reset_session [cat_row, dog_row]) = [''The cat sat.'', ''Dogs run fast.''] \<and>
   (\<exists>rnd. get_random_unseen_sentence rnd (reset_session [cat_row, dog_row])
            = Some (2, ''Dogs run fast.''))"
proof -
  have "reset_session [cat_row, dog_row] ! 1 \<in> set (reset_session [cat_row, dog_row])"
    by (simp add: reset_session_def)
  then show ?thesis
    using reset_session_frame [of "[cat_row, dog_row]"]
    by (auto simp: get_progress_stats_def cat_row_def dog_row_def reset_session_def)
qed

subsection \<open>C8: a frame without the column sentence\<close>

text \<open>
  Claim C8, as the code has it: when no column of the frame is named exactly
  \<^verbatim>\<open>sentence\<close>, \<open>import_csv\<close> raises the generic \<open>Exception\<close> whose message is
  \<^verbatim>\<open>Failed to import CSV: CSV must contain a 'sentence' column\<close> (the \<open>ValueError\<close>
  raised for the missing column is caught and raised again without its type) and the
  table is the one before the call: nothing is inserted.
\<close>

theorem import_csv_missing_column:
  assumes "''sentence'' \<notin> set (columns df)"
  shows "import_csv fault clock (Inr df) db
           = (Inl (Exception ''Failed to import CSV: CSV must contain a 'sentence' column''),
              db)"
  using assms by (simp add: import_csv_def import_body_def)

theorem import_csv_missing_column_witness:
  "import_csv no_fault noon (Inr capitalised) [dog_row]
     = (Inl (Exception ''Failed to import CSV: CSV must contain a 'sentence' column''),
        [dog_row])"
proof -
  have "''sentence'' \<notin> set (columns capitalised)" by (simp add: capitalised_def)
  then show ?thesis by (rule import_csv_missing_column)
qed

text \<open>
  The frame \<open>capitalised\<close> has the columns \<^verbatim>\<open>Sentence\<close> and \<^verbatim>\<open>text\<close>. What the
  import raises is not an exception of a kind of its own: it is the \<open>Exception\<close> that any
  failure of the import ends in, here the very value that a failure of the parser with
  the same message gives.
\<close>

theorem import_csv_untyped_error_counterexample:
  "fst (import_csv no_fault noon (Inr capitalised) [dog_row])
     = Inl (Exception ''Failed to import CSV: CSV must contain a 'sentence' column'') \<and>
   fst (import_csv no_fault noon (Inr capitalised) [dog_row])
     \<noteq> Inl (ValueError ''CSV must contain a 'sentence' column'') \<and>
   import_csv no_fault noon (Inr capitalised) [dog_row]
     = import_csv no_fault noon (Inl (ReadError ''CSV must contain a 'sentence' column''))
         [dog_row]"
  by (simp add: import_csv_def import_body_def capitalised_def)

subsection \<open>C9: save_rewrite and mark_sentence_seen change one row\<close>

text \<open>
  Claim C9: \<open>save_rewrite\<close> and \<open>mark_sentence_seen\<close> keep the number of rows; a row
  whose id is not the given one is unchanged; in a row whose id is the given one,
  \<open>save_rewrite\<close> sets the rewrite and the update time, \<open>mark_sentence_seen\<close> sets
  \<open>seen\<close> and the update time, and the id, the original and the creation time are
  unchanged.
\<close>

theorem save_and_mark_frame:
  "length (save_rewrite now i text db) = length db \<and>
   length (mark_sentence_seen now i db) = length db \<and>
   (\<forall>k < length db.
      sid (save_rewrite now i text db ! k) = sid (db ! k) \<and>
      original (save_rewrite now i text db ! k) = original (db ! k) \<and>
      created_at (save_rewrite now i text db ! k) = created_at (db ! k) \<and>
      seen (save_rewrite now i text db ! k) = seen (db ! k) \<and>
      (if sid (db ! k) = i
       then rewrite (save_rewrite now i text db ! k) = Some text \<and>
            updated_at (save_rewrite now i text db ! k) = Some now
       else save_rewrite now i text db ! k = db ! k) \<and>
      sid (mark_sentence_seen now i db ! k) = sid (db ! k) \<and>
      original (mark_sentence_seen now i db ! k) = original (db ! k) \<and>
      created_at (mark_sentence_seen now i db ! k) = created_at (db ! k) \<and>
      rewrite (mark_sentence_seen now i db ! k) = rewrite (db ! k) \<and>
      (if sid (db ! k) = i
       then seen (mark_sentence_seen now i db ! k) \<and>
            updated_at (mark_sentence_seen now i db ! k) = Some now
       else mark_sentence_seen now i db ! k = db ! k))"
  by (simp add: save_rewrite_def mark_sentence_seen_def)

theorem save_and_mark_frame_witness:
  "save_rewrite ''2024-01-03 08:00:00'' 1 ''A cat sat.'' [cat_row, dog_row] ! 1 = dog_row \<and>
   rewrite (save_rewrite ''2024-01-03 08:00:00'' 1 ''A cat sat.'' [cat_row, dog_row] ! 0)
     = Some ''A cat sat.'' \<and>
   mark_sentence_seen ''2024-01-03 08:00:00'' 1 [cat_row, dog_row] ! 1 = dog_row \<and>
   seen (mark_sentence_seen ''2024-01-03 08:00:00'' 1 [cat_row, dog_row] ! 0)"
  using save_and_mark_frame [of "''2024-01-03 08:00:00''" 1 "''A cat sat.''" "[cat_row, dog_row]"]
  by (simp add: cat_row_def dog_row_def All_less_Suc)

subsection \<open>C10: the completed count is at most the total\<close>

text \<open>
  Claim C10: in the pair that \<open>get_progress_stats\<close> returns, the number of rows with a
  rewrite (the second component) is at most the number of all rows (the first), on every
  table; so also on the table after an import, a save, a mark or a reset, and after any
  sequence of them.
\<close>

theorem completed_le_total:
  "snd (get_progress_stats db) \<le> fst (get_progress_stats db) \<and>
   snd (get_progress_stats (apply_action a db)) \<le> fst (get_progress_stats (apply_action a db)) \<and>
   snd (get_progress_stats (run as db)) \<le> fst (get_progress_stats (run as db))"
  by (simp add: get_progress_stats_def)

theorem completed_le_total_witness:
  "get_progress_stats (run practice [cat_row, dog_row]) = (3, 2)"
proof -
  have "run practice [cat_row, dog_row]
     = [cat_row\<lparr>rewrite := Some ''A cat sat.'', updated_at := Some ''2024-01-03 08:00:00''\<rparr>,
        dog_row\<lparr>updated_at := Some ''2024-01-03 08:05:00''\<rparr>,
        \<lparr>sid = 3, original = ''Birds sing.'', rewrite = None, seen = False,
          created_at = ''2024-01-01 12:00:00'', updated_at = None\<rparr>]"
    by (simp add: practice_def mark_sentence_seen_def save_rewrite_def import_csv_def
        import_body_def more_sentences_def no_fault_def noon_def row_get_def strip_def
        isspace_def insert_sentence_def cat_row_def dog_row_def)
  then show ?thesis
    using completed_le_total [of "run practice [cat_row, dog_row]" Reset "[]"]
    by (simp add: get_progress_stats_def cat_row_def dog_row_def)
qed

end
